theory Spec2Isabelle
  imports Complex_Main "HOL-Library.Log_Nat"
begin

section \<open>OrgFlow: the GraphQL resolvers and mutations of backend/core/schema.py\<close>

text \<open>
  The schema module reads and writes five Django models through the ORM. The database is
  an explicit value here: one list of rows per table (users, organizations, projects and
  tasks; task comments take no part in the operations treated), every mutation returns
  its outcome together with the database it leaves behind, and every
  \<^verbatim>\<open>raise\<close> is an \<open>Inl\<close>. A mutation that raises after a write therefore returns the error and the
  written database, as the Python leaves it (no transaction is opened by the module).

  Primary keys are natural numbers. The GraphQL \<^verbatim>\<open>ID\<close> scalar arrives as text;
  its conversion to a key is done by the ORM and is not part of this development.
\<close>

subsection \<open>Rows\<close>

text \<open>
  The module \<^verbatim>\<open>models.py\<close> is not among the sources. The fields below are the ones
  schema.py reads and writes; a foreign key holds the key of the row it points to, the
  many-to-many relation \<^verbatim>\<open>members\<close> is the list of the member keys in the order
  they were added.
\<close>

record user =
  user_id :: nat
  username :: string
  email :: string
  password :: string

record organization =
  org_id :: nat
  name :: string
  slug :: string
  owner :: "nat option"
  members :: "nat list"

record project =
  project_id :: nat
  project_organization :: nat
  project_name :: string
  project_description :: string
  project_due_date :: "string option"
  project_status :: string

record task =
  task_id :: nat
  task_project :: nat
  title :: string
  description :: string
  status :: string
  assignee_email :: "string option"
  due_date :: "string option"

record db =
  users :: "user list"
  organizations :: "organization list"
  projects :: "project list"
  tasks :: "task list"

subsection \<open>Errors and the request user\<close>

text \<open>
  schema.py raises plain \<^verbatim>\<open>Exception(message)\<close>; the ORM raises
  \<^verbatim>\<open>Model.DoesNotExist\<close> and \<^verbatim>\<open>Model.MultipleObjectsReturned\<close> (tagged
  with the model's name, since \<^verbatim>\<open>except Project.DoesNotExist\<close> catches only the
  project's), \<^verbatim>\<open>create_user\<close> raises \<^verbatim>\<open>ValueError\<close> on an empty username;
  Python's division of integers raises \<^verbatim>\<open>ZeroDivisionError\<close> on a zero divisor and
  \<^verbatim>\<open>OverflowError\<close> on a quotient too large for a float.
\<close>

datatype error =
    Exception string
  | DoesNotExist string
  | MultipleObjectsReturned string
  | ValueError string
  | ZeroDivisionError
  | OverflowError

text \<open>\<^verbatim>\<open>info.context.user\<close>: Django's anonymous user, or a user row (compared by key).\<close>

datatype context_user = AnonymousUser | User nat

fun is_authenticated :: "context_user \<Rightarrow> bool" where
  "is_authenticated AnonymousUser = False"
| "is_authenticated (User uid) = True"

text \<open>\<^verbatim>\<open>user in org.members.all()\<close>\<close>

fun user_in :: "context_user \<Rightarrow> nat list \<Rightarrow> bool" where
  "user_in AnonymousUser ms = False"
| "user_in (User uid) ms = (uid \<in> set ms)"

text \<open>
  The collaborators outside the repository that \<^verbatim>\<open>Register\<close> calls:
  \<^verbatim>\<open>django.utils.text.slugify\<close>, the password hasher behind
  \<^verbatim>\<open>create_user\<close> and \<^verbatim>\<open>graphql_jwt.shortcuts.get_token\<close>.
\<close>

record collaborators =
  slugify :: "string \<Rightarrow> string"
  make_password :: "string \<Rightarrow> string"
  get_token :: "user \<Rightarrow> string"

subsection \<open>The ORM calls the module uses\<close>

text \<open>\<^verbatim>\<open>Model.objects.get(...)\<close>: the one matching row, or one of two errors.\<close>

definition objects_get :: "string \<Rightarrow> ('a \<Rightarrow> bool) \<Rightarrow> 'a list \<Rightarrow> error + 'a" where
  "objects_get model P rows =
     (case filter P rows of
        [] \<Rightarrow> Inl (DoesNotExist model)
      | [x] \<Rightarrow> Inr x
      | x # y # zs \<Rightarrow> Inl (MultipleObjectsReturned model))"

text \<open>
  The four lookups of the module: \<^verbatim>\<open>Project.objects.get(pk=)\<close>,
  \<^verbatim>\<open>Task.objects.get(pk=)\<close>, the row behind a foreign key to an organization,
  and \<^verbatim>\<open>Organization.objects.get(slug=)\<close>.
\<close>

definition get_project :: "db \<Rightarrow> nat \<Rightarrow> error + project" where
  "get_project d pid = objects_get ''Project'' (\<lambda>p. project_id p = pid) (projects d)"

definition get_task :: "db \<Rightarrow> nat \<Rightarrow> error + task" where
  "get_task d tid = objects_get ''Task'' (\<lambda>t. task_id t = tid) (tasks d)"

definition get_organization :: "db \<Rightarrow> nat \<Rightarrow> error + organization" where
  "get_organization d gid = objects_get ''Organization'' (\<lambda>g. org_id g = gid) (organizations d)"

definition get_organization_by_slug :: "db \<Rightarrow> string \<Rightarrow> error + organization" where
  "get_organization_by_slug d sl =
     objects_get ''Organization'' (\<lambda>g. slug g = sl) (organizations d)"

text \<open>The key an insert receives: one more than the largest key of the table.\<close>

definition next_pk :: "nat list \<Rightarrow> nat" where
  "next_pk ids = Suc (foldr max ids 0)"

text \<open>\<^verbatim>\<open>row.save()\<close> of a loaded row: the row with that key is overwritten.\<close>

definition save_organization :: "organization \<Rightarrow> db \<Rightarrow> db" where
  "save_organization org d =
     d\<lparr>organizations := map (\<lambda>g. if org_id g = org_id org then org else g) (organizations d)\<rparr>"

definition save_project :: "project \<Rightarrow> db \<Rightarrow> db" where
  "save_project p d =
     d\<lparr>projects := map (\<lambda>q. if project_id q = project_id p then p else q) (projects d)\<rparr>"

definition save_task :: "task \<Rightarrow> db \<Rightarrow> db" where
  "save_task t d =
     d\<lparr>tasks := map (\<lambda>s. if task_id s = task_id t then t else s) (tasks d)\<rparr>"

text \<open>
  \<^verbatim>\<open>User.objects.create_user(username=, email=, password=)\<close>: Django refuses an
  empty username with a \<^verbatim>\<open>ValueError\<close>, stores the hashed password and inserts
  the row.
\<close>

definition create_user ::
  "collaborators \<Rightarrow> db \<Rightarrow> string \<Rightarrow> string \<Rightarrow> string \<Rightarrow> (error + user) \<times> db" where
  "create_user c d uname mail pw =
     (if uname = [] then (Inl (ValueError ''The given username must be set''), d)
      else
        let u = \<lparr>user_id = next_pk (map user_id (users d)), username = uname,
                 email = mail, password = make_password c pw\<rparr>
        in (Inr u, d\<lparr>users := users d @ [u]\<rparr>))"

text \<open>\<^verbatim>\<open>Organization.objects.create(name=, slug=, owner=user)\<close>\<close>

definition create_organization :: "db \<Rightarrow> string \<Rightarrow> string \<Rightarrow> user \<Rightarrow> organization \<times> db" where
  "create_organization d nm sl u =
     (let org = \<lparr>org_id = next_pk (map org_id (organizations d)), name = nm, slug = sl,
                 owner = Some (user_id u), members = []\<rparr>
      in (org, d\<lparr>organizations := organizations d @ [org]\<rparr>))"

text \<open>\<^verbatim>\<open>org.members.add(user)\<close>: adding a member twice keeps one entry.\<close>

definition members_add :: "nat \<Rightarrow> nat list \<Rightarrow> nat list" where
  "members_add uid ms = (if uid \<in> set ms then ms else ms @ [uid])"

text \<open>\<^verbatim>\<open>project.tasks\<close>: the tasks whose foreign key is the project.\<close>

definition project_tasks :: "db \<Rightarrow> project \<Rightarrow> task list" where
  "project_tasks d p = filter (\<lambda>t. task_project t = project_id p) (tasks d)"

subsection \<open>Python floats\<close>

text \<open>
  A Python float is an IEEE 754 binary64 number. A finite one is the rational number it
  denotes; an operation returns the exact result rounded to the nearest binary64 number,
  ties going to the even significand. The operands below are counts and quotients of
  counts, so the sign of a zero and NaN do not occur and are not represented.
\<close>

datatype pyfloat = Finite rat | PlusInfinity | MinusInfinity

text \<open>The nearest integer, the even one of the two at a tie.\<close>

definition round_half_even :: "rat \<Rightarrow> int" where
  "round_half_even x =
     (let f = \<lfloor>x\<rfloor>; r = x - of_int f
      in if r < 1 / 2 then f else if 1 / 2 < r then f + 1 else if even f then f else f + 1)"

text \<open>
  For \<open>0 < x\<close>, the integer \<open>k\<close> with \<open>2\<^sup>k \<le> x < 2\<^sup>k\<^sup>+\<^sup>1\<close>, from the bit
  length of the integer part of \<open>x\<close> or of \<open>1 / x\<close>.
\<close>

definition ilog2 :: "rat \<Rightarrow> int" where
  "ilog2 x = (if 1 \<le> x then bitlen \<lfloor>x\<rfloor> - 1 else - bitlen (\<lceil>1 / x\<rceil> - 1))"

text \<open>
  Rounding to binary64 with an unbounded exponent range upwards: the significand has 53
  bits, the unit of the last place is \<open>2\<^sup>e\<close> with \<open>e\<close> 52 below the exponent of
  \<open>x\<close>, and never below \<open>-1074\<close>, the spacing of the subnormal numbers. A result
  of magnitude \<open>2\<^sup>1\<^sup>0\<^sup>2\<^sup>4\<close> or more is beyond the largest float.
\<close>

definition round64 :: "rat \<Rightarrow> rat" where
  "round64 x =
     (if x = 0 then 0
      else
        let e = max (ilog2 \<bar>x\<bar> - 52) (- 1074)
        in of_int (round_half_even (x / 2 powi e)) * 2 powi e)"

text \<open>
  Python's \<^verbatim>\<open>/\<close> on two integers (natural numbers here: the operands are counts):
  the correctly rounded quotient.
\<close>

definition truediv :: "nat \<Rightarrow> nat \<Rightarrow> error + rat" where
  "truediv a b =
     (if b = 0 then Inl ZeroDivisionError
      else
        let r = round64 (of_nat a / of_nat b)
        in if 2 ^ 1024 \<le> r then Inl OverflowError else Inr r)"

text \<open>Python's \<^verbatim>\<open>*\<close> on two finite floats: overflow gives an infinity, no error.\<close>

definition float_mul :: "rat \<Rightarrow> rat \<Rightarrow> pyfloat" where
  "float_mul x y =
     (let r = round64 (x * y)
      in if 2 ^ 1024 \<le> r then PlusInfinity
         else if r \<le> - (2 ^ 1024) then MinusInfinity
         else Finite r)"

subsection \<open>ProjectType.resolve\_completion\_rate\<close>

text \<open>
  \<^verbatim>\<open>
  total = self.tasks.count()
  if total == 0: return 0.0
  completed = self.tasks.filter(status='DONE').count()
  return (completed / total) * 100
  \<close>
  The integer 100 is converted to the float 100.0, exactly, before the multiplication.
\<close>

definition resolve_completion_rate :: "db \<Rightarrow> project \<Rightarrow> error + pyfloat" where
  "resolve_completion_rate d self =
     (let total = length (project_tasks d self) in
      if total = 0 then Inr (Finite 0)
      else
        let completed = length (filter (\<lambda>t. status t = ''DONE'') (project_tasks d self)) in
        case truediv completed total of
          Inl e \<Rightarrow> Inl e
        | Inr q \<Rightarrow> Inr (float_mul q 100))"

subsection \<open>Query.resolve\_project\<close>

text \<open>
  \<^verbatim>\<open>
  if not user.is_authenticated: raise Exception("Not logged in")
  try:
      project = Project.objects.get(pk=id)
      if user not in project.organization.members.all():
          raise Exception("Access Denied")
      return project
  except Project.DoesNotExist:
      return None
  \<close>
  The \<^verbatim>\<open>try\<close> body is \<open>project_for_member\<close>; the handler turns the project's
  \<^verbatim>\<open>DoesNotExist\<close>, and no other error, into \<^verbatim>\<open>None\<close>.
\<close>

definition project_for_member :: "db \<Rightarrow> context_user \<Rightarrow> nat \<Rightarrow> error + project option" where
  "project_for_member d usr pid =
     (case get_project d pid of
        Inl e \<Rightarrow> Inl e
      | Inr p \<Rightarrow>
          (case get_organization d (project_organization p) of
             Inl e \<Rightarrow> Inl e
           | Inr org \<Rightarrow>
               if \<not> user_in usr (members org) then Inl (Exception ''Access Denied'')
               else Inr (Some p)))"

definition except_project_does_not_exist :: "error + project option \<Rightarrow> error + project option" where
  "except_project_does_not_exist r =
     (case r of
        Inl e \<Rightarrow> (if e = DoesNotExist ''Project'' then Inr None else Inl e)
      | Inr v \<Rightarrow> Inr v)"

definition resolve_project :: "db \<Rightarrow> context_user \<Rightarrow> nat \<Rightarrow> error + project option" where
  "resolve_project d usr pid =
     (if \<not> is_authenticated usr then Inl (Exception ''Not logged in'')
      else except_project_does_not_exist (project_for_member d usr pid))"

subsection \<open>Register.mutate\<close>

text \<open>
  \<^verbatim>\<open>
  try:
      org = Organization.objects.get(slug=slug)
  except Organization.DoesNotExist:
      org = Organization.objects.create(name=organization_name, slug=slug, owner=user)
  \<close>
\<close>

definition get_or_create_organization ::
  "db \<Rightarrow> string \<Rightarrow> string \<Rightarrow> user \<Rightarrow> (error + organization) \<times> db" where
  "get_or_create_organization d organization_name sl usr =
     (case get_organization_by_slug d sl of
        Inr org \<Rightarrow> (Inr org, d)
      | Inl e \<Rightarrow>
          if e = DoesNotExist ''Organization''
          then (case create_organization d organization_name sl usr of
                  (org, d') \<Rightarrow> (Inr org, d'))
          else (Inl e, d))"

text \<open>
  \<^verbatim>\<open>
  if User.objects.filter(username=username).exists():
      raise Exception("Username already exists")
  user = User.objects.create_user(username=username, email=email, password=password)
  slug = slugify(organization_name)
  ... org as above ...
  org.members.add(user)
  org.save()
  token = get_token(user)
  return Register(user=user, organization=org, token=token)
  \<close>
\<close>

definition register_mutate ::
  "collaborators \<Rightarrow> db \<Rightarrow> string \<Rightarrow> string \<Rightarrow> string \<Rightarrow> string
     \<Rightarrow> (error + user \<times> organization \<times> string) \<times> db" where
  "register_mutate c d uname pw mail organization_name =
     (if \<exists>u \<in> set (users d). username u = uname
      then (Inl (Exception ''Username already exists''), d)
      else
        case create_user c d uname mail pw of
          (Inl e, d1) \<Rightarrow> (Inl e, d1)
        | (Inr usr, d1) \<Rightarrow>
            (case get_or_create_organization d1 organization_name
                    (slugify c organization_name) usr of
               (Inl e, d2) \<Rightarrow> (Inl e, d2)
             | (Inr org, d2) \<Rightarrow>
                 let org' = org\<lparr>members := members_add (user_id usr) (members org)\<rparr>;
                     d3 = save_organization org' d2
                 in (Inr (usr, org', get_token c usr), d3)))"

subsection \<open>UpdateTask.mutate\<close>

text \<open>
  \<^verbatim>\<open>
  if assignee_email is not None:
      if task.project.organization.owner and task.project.organization.owner != user:
          raise Exception("Only the Organization Admin can assign tasks.")
      task.assignee_email = assignee_email
  \<close>
  The two attribute reads \<^verbatim>\<open>task.project\<close> and \<^verbatim>\<open>.organization\<close> load
  the rows the foreign keys point to.
\<close>

definition assign :: "db \<Rightarrow> context_user \<Rightarrow> task \<Rightarrow> string option \<Rightarrow> error + task" where
  "assign d usr t assignee =
     (case assignee of
        None \<Rightarrow> Inr t
      | Some a \<Rightarrow>
          (case get_project d (task_project t) of
             Inl e \<Rightarrow> Inl e
           | Inr p \<Rightarrow>
               (case get_organization d (project_organization p) of
                  Inl e \<Rightarrow> Inl e
                | Inr org \<Rightarrow>
                    (case owner org of
                       None \<Rightarrow> Inr (t\<lparr>assignee_email := Some a\<rparr>)
                     | Some w \<Rightarrow>
                         if User w \<noteq> usr
                         then Inl (Exception ''Only the Organization Admin can assign tasks.'')
                         else Inr (t\<lparr>assignee_email := Some a\<rparr>)))))"

text \<open>
  \<^verbatim>\<open>
  if status: task.status = status
  if description is not None: task.description = description
  if due_date is not None: task.due_date = None if due_date == "" else due_date
  \<close>
  \<^verbatim>\<open>if status\<close> is Python's truth test: neither \<^verbatim>\<open>None\<close> nor the empty string
  passes it.
\<close>

definition patch_status :: "string option \<Rightarrow> task \<Rightarrow> task" where
  "patch_status st t =
     (case st of None \<Rightarrow> t | Some s \<Rightarrow> if s = [] then t else t\<lparr>status := s\<rparr>)"

definition patch_description :: "string option \<Rightarrow> task \<Rightarrow> task" where
  "patch_description ds t = (case ds of None \<Rightarrow> t | Some x \<Rightarrow> t\<lparr>description := x\<rparr>)"

definition patch_due_date :: "string option \<Rightarrow> task \<Rightarrow> task" where
  "patch_due_date dd t =
     (case dd of
        None \<Rightarrow> t
      | Some x \<Rightarrow> t\<lparr>due_date := (if x = [] then None else Some x)\<rparr>)"

text \<open>
  \<^verbatim>\<open>
  task = Task.objects.get(pk=task_id)
  user = info.context.user
  ... the checks and assignments above ...
  task.save()
  return UpdateTask(task=task)
  \<close>
\<close>

definition update_task_mutate ::
  "db \<Rightarrow> context_user \<Rightarrow> nat \<Rightarrow> string option \<Rightarrow> string option \<Rightarrow> string option
     \<Rightarrow> string option \<Rightarrow> (error + task) \<times> db" where
  "update_task_mutate d usr tid st ds assignee dd =
     (case get_task d tid of
        Inl e \<Rightarrow> (Inl e, d)
      | Inr t \<Rightarrow>
          (case assign d usr t assignee of
             Inl e \<Rightarrow> (Inl e, d)
           | Inr t1 \<Rightarrow>
               let t2 = patch_due_date dd (patch_description ds (patch_status st t1))
               in (Inr t2, save_task t2 d)))"

subsection \<open>UpdateProject.mutate\<close>

text \<open>
  \<^verbatim>\<open>
  project = Project.objects.get(pk=project_id)
  project.status = status
  project.save()
  return UpdateProject(project=project)
  \<close>
  The request user is an argument the body never reads.
\<close>

definition update_project_mutate ::
  "db \<Rightarrow> context_user \<Rightarrow> nat \<Rightarrow> string \<Rightarrow> (error + project) \<times> db" where
  "update_project_mutate d usr pid st =
     (case get_project d pid of
        Inl e \<Rightarrow> (Inl e, d)
      | Inr p \<Rightarrow>
          let p' = p\<lparr>project_status := st\<rparr>
          in (Inr p', save_project p' d))"

subsection \<open>CreateTask.mutate\<close>

text \<open>
  \<^verbatim>\<open>
  project = Project.objects.get(pk=project_id)
  task = Task.objects.create(project=project, title=title)
  return CreateTask(task=task)
  \<close>
  The fields \<^verbatim>\<open>create\<close> is not given take the defaults of the Task model, which
  models.py declares: they are the argument \<open>dflt\<close>.
\<close>

definition create_task_mutate ::
  "task \<Rightarrow> db \<Rightarrow> context_user \<Rightarrow> nat \<Rightarrow> string \<Rightarrow> (error + task) \<times> db" where
  "create_task_mutate dflt d usr pid ttl =
     (case get_project d pid of
        Inl e \<Rightarrow> (Inl e, d)
      | Inr p \<Rightarrow>
          let t = dflt\<lparr>task_id := next_pk (map task_id (tasks d)),
                       task_project := project_id p, title := ttl\<rparr>
          in (Inr t, d\<lparr>tasks := tasks d @ [t]\<rparr>))"

subsection \<open>Concrete collaborators, for running the mutations\<close>

text \<open>
  Django's \<^verbatim>\<open>slugify\<close> on ASCII text: lower-case the text, drop every character
  that is not a letter, digit, underscore, hyphen or white space, replace each run of
  hyphens and white space by one hyphen, strip hyphens and underscores from both ends.
\<close>

definition ascii_lower :: "char \<Rightarrow> char" where
  "ascii_lower ch =
     (let n = (of_char ch :: nat) in if 65 \<le> n \<and> n \<le> 90 then char_of (n + 32) else ch)"

definition is_word :: "char \<Rightarrow> bool" where
  "is_word ch =
     (let n = (of_char ch :: nat)
      in (48 \<le> n \<and> n \<le> 57) \<or> (65 \<le> n \<and> n \<le> 90) \<or> (97 \<le> n \<and> n \<le> 122) \<or> n = 95)"

definition is_sep :: "char \<Rightarrow> bool" where
  "is_sep ch =
     (let n = (of_char ch :: nat)
      in n = 45 \<or> n = 32 \<or> (9 \<le> n \<and> n \<le> 13) \<or> (28 \<le> n \<and> n \<le> 31))"

fun hyphenate :: "bool \<Rightarrow> string \<Rightarrow> string" where
  "hyphenate prev [] = []"
| "hyphenate prev (ch # cs) =
     (if is_sep ch then (if prev then hyphenate True cs else CHR ''-'' # hyphenate True cs)
      else ch # hyphenate False cs)"

definition strip_chars :: "(char \<Rightarrow> bool) \<Rightarrow> string \<Rightarrow> string" where
  "strip_chars P s = rev (dropWhile P (rev (dropWhile P s)))"

definition slugify_ascii :: "string \<Rightarrow> string" where
  "slugify_ascii s =
     strip_chars (\<lambda>ch. ch = CHR ''-'' \<or> ch = CHR ''_'')
       (hyphenate False (filter (\<lambda>ch. is_word ch \<or> is_sep ch) (map ascii_lower s)))"

text \<open>Stand-ins for the hasher and the token service: any two functions would do.\<close>

definition demo :: collaborators where
  "demo = \<lparr>slugify = slugify_ascii, make_password = (\<lambda>pw. ''hashed:'' @ pw),
           get_token = (\<lambda>u. ''token:'' @ username u)\<rparr>"

definition empty_db :: db where
  "empty_db = \<lparr>users = [], organizations = [], projects = [], tasks = []\<rparr>"

text \<open>
  A small database to run the operations on: alice owns Acme and bob is a member, carol
  is neither; project 1 has two finished and two open tasks, project 2 has none.
\<close>

definition sample_task :: "nat \<Rightarrow> string \<Rightarrow> task" where
  "sample_task i st =
     \<lparr>task_id = i, task_project = 1, title = ''task'', description = ''to do'',
      status = st, assignee_email = Some ''bob@x.com'', due_date = Some ''2026-01-31''\<rparr>"

definition sample_db :: db where
  "sample_db =
     \<lparr>users =
        [\<lparr>user_id = 1, username = ''alice'', email = ''a@x.com'', password = ''hashed:pw''\<rparr>,
         \<lparr>user_id = 2, username = ''bob'', email = ''b@x.com'', password = ''hashed:pw''\<rparr>,
         \<lparr>user_id = 3, username = ''carol'', email = ''c@x.com'', password = ''hashed:pw''\<rparr>],
      organizations =
        [\<lparr>org_id = 1, name = ''Acme'', slug = ''acme'', owner = Some 1, members = [1, 2]\<rparr>],
      projects =
        [\<lparr>project_id = 1, project_organization = 1, project_name = ''Site'',
          project_description = [], project_due_date = None, project_status = ''ACTIVE''\<rparr>,
         \<lparr>project_id = 2, project_organization = 1, project_name = ''Shop'',
          project_description = [], project_due_date = None, project_status = ''ACTIVE''\<rparr>],
      tasks =
        [sample_task 1 ''DONE'', sample_task 2 ''DONE'', sample_task 3 ''TODO'',
         sample_task 4 ''TODO'']\<rparr>"

text \<open>A project with 25 tasks, 7 of them finished.\<close>

definition busy_db :: db where
  "busy_db =
     \<lparr>users = [], organizations = [], projects = [],
      tasks = map (\<lambda>i. sample_task i ''DONE'') [1..<8]
              @ map (\<lambda>i. sample_task i ''TODO'') [8..<26]\<rparr>"

section \<open>Facts about the ORM calls\<close>

lemma objects_get_Inr_iff: "objects_get m P xs = Inr x \<longleftrightarrow> filter P xs = [x]"
  by (auto simp: objects_get_def split: list.splits)

lemma objects_get_absent:
  "(\<forall>x \<in> set xs. \<not> P x) \<Longrightarrow> objects_get m P xs = Inl (DoesNotExist m)"
  by (simp add: objects_get_def filter_False)

lemma foldr_max_upper: "i \<in> set ids \<Longrightarrow> i \<le> foldr max ids (0::nat)"
  by (induction ids) (auto simp: max_def)

lemma next_pk_fresh: "next_pk ids \<notin> set ids"
proof
  assume "next_pk ids \<in> set ids"
  then have "next_pk ids \<le> foldr max ids 0" by (rule foldr_max_upper)
  then show False by (simp add: next_pk_def)
qed

lemma filter_overwrite:
  "f r = k \<Longrightarrow>
   filter (\<lambda>x. f x = k) (map (\<lambda>x. if f x = f r then r else x) xs)
     = map (\<lambda>x. r) (filter (\<lambda>x. f x = k) xs)"
  by (induction xs) auto

lemma get_project_Inr_iff:
  "get_project d pid = Inr p \<longleftrightarrow> filter (\<lambda>q. project_id q = pid) (projects d) = [p]"
  by (simp add: get_project_def objects_get_Inr_iff)

lemma get_project_key: "get_project d pid = Inr p \<Longrightarrow> project_id p = pid"
proof -
  assume "get_project d pid = Inr p"
  then have "p \<in> set (filter (\<lambda>q. project_id q = pid) (projects d))"
    by (simp add: get_project_Inr_iff)
  then show ?thesis by simp
qed

lemma get_project_saved:
  assumes "get_project d pid = Inr p" and "project_id p' = pid"
  shows "get_project (save_project p' d) pid = Inr p'"
proof -
  have "filter (\<lambda>q. project_id q = pid)
          (map (\<lambda>q. if project_id q = project_id p' then p' else q) (projects d)) = [p']"
    using assms filter_overwrite [of project_id p' pid "projects d"]
    by (simp add: get_project_Inr_iff)
  then show ?thesis by (simp add: get_project_Inr_iff save_project_def)
qed

section \<open>Reading a project\<close>

text \<open>
  Claim C2. The query \<open>project(id)\<close> has three distinct outcomes for three kinds of
  input, and a fourth for a member: an anonymous user gets the error "Not logged in";
  a logged-in user asking for an id no project has gets the value null, not an error; a
  logged-in user who is not a member of the project's organization gets the error
  "Access Denied", which differs from "Not logged in"; a logged-in member gets the
  project.
\<close>

theorem resolve_project_outcomes:
  "resolve_project d AnonymousUser pid = Inl (Exception ''Not logged in'')
   \<and> ((\<forall>q \<in> set (projects d). project_id q \<noteq> pid)
        \<longrightarrow> resolve_project d (User uid) pid = Inr None)
   \<and> (get_project d pid = Inr p \<and> get_organization d (project_organization p) = Inr org
        \<and> uid \<notin> set (members org)
        \<longrightarrow> resolve_project d (User uid) pid = Inl (Exception ''Access Denied''))
   \<and> (get_project d pid = Inr p \<and> get_organization d (project_organization p) = Inr org
        \<and> uid \<in> set (members org)
        \<longrightarrow> resolve_project d (User uid) pid = Inr (Some p))
   \<and> (Inl (Exception ''Not logged in'') :: error + project option)
        \<noteq> Inl (Exception ''Access Denied'')
   \<and> (Inr None :: error + project option) \<noteq> Inl (Exception ''Not logged in'')
   \<and> (Inr None :: error + project option) \<noteq> Inl (Exception ''Access Denied'')"
proof -
  have anonymous: "resolve_project d AnonymousUser pid = Inl (Exception ''Not logged in'')"
    by (simp add: resolve_project_def)
  have absent: "resolve_project d (User uid) pid = Inr None"
    if "\<forall>q \<in> set (projects d). project_id q \<noteq> pid"
  proof -
    from that have "get_project d pid = Inl (DoesNotExist ''Project'')"
      unfolding get_project_def by (intro objects_get_absent) simp
    then show ?thesis
      by (simp add: resolve_project_def project_for_member_def
          except_project_does_not_exist_def)
  qed
  have denied: "resolve_project d (User uid) pid = Inl (Exception ''Access Denied'')"
    if "get_project d pid = Inr p" "get_organization d (project_organization p) = Inr org"
       "uid \<notin> set (members org)"
    using that
    by (simp add: resolve_project_def project_for_member_def
        except_project_does_not_exist_def)
  have member: "resolve_project d (User uid) pid = Inr (Some p)"
    if "get_project d pid = Inr p" "get_organization d (project_organization p) = Inr org"
       "uid \<in> set (members org)"
    using that
    by (simp add: resolve_project_def project_for_member_def
        except_project_does_not_exist_def)
  show ?thesis using anonymous absent denied member by simp
qed

text \<open>
  On the sample: anonymous, alice asking for project 9, carol (no member) and bob (a
  member) asking for project 1.
\<close>

theorem resolve_project_outcomes_witness:
  "resolve_project sample_db AnonymousUser 1 = Inl (Exception ''Not logged in'')
   \<and> resolve_project sample_db (User 1) 9 = Inr None
   \<and> resolve_project sample_db (User 3) 1 = Inl (Exception ''Access Denied'')
   \<and> resolve_project sample_db (User 2) 1 = Inr (Some (projects sample_db ! 0))"
  using resolve_project_outcomes [of sample_db 1 3 "projects sample_db ! 0"
          "organizations sample_db ! 0"]
        resolve_project_outcomes [of sample_db 9 1]
        resolve_project_outcomes [of sample_db 1 2 "projects sample_db ! 0"
          "organizations sample_db ! 0"]
  by (simp add: sample_db_def get_project_def get_organization_def objects_get_def)

section \<open>Updating a project\<close>

text \<open>
  Claim C8. UpdateProject checks neither authentication nor authorization: for every
  request user, anonymous or logged in, and every existing project, the mutation
  succeeds, overwrites the project's status with the given value and saves the row, so
  that the project read back afterwards carries the new status.
\<close>

theorem update_project_unchecked:
  assumes "get_project d pid = Inr p"
  shows "update_project_mutate d usr pid st
           = (Inr (p\<lparr>project_status := st\<rparr>), save_project (p\<lparr>project_status := st\<rparr>) d)
         \<and> get_project (save_project (p\<lparr>project_status := st\<rparr>) d) pid
             = Inr (p\<lparr>project_status := st\<rparr>)
         \<and> project_status (p\<lparr>project_status := st\<rparr>) = st"
proof -
  have key: "project_id (p\<lparr>project_status := st\<rparr>) = pid"
    using get_project_key [OF assms] by simp
  have "update_project_mutate d usr pid st
          = (Inr (p\<lparr>project_status := st\<rparr>), save_project (p\<lparr>project_status := st\<rparr>) d)"
    using assms by (simp add: update_project_mutate_def Let_def)
  moreover have "get_project (save_project (p\<lparr>project_status := st\<rparr>) d) pid
                   = Inr (p\<lparr>project_status := st\<rparr>)"
    using assms key by (rule get_project_saved)
  ultimately show ?thesis by simp
qed

text \<open>An anonymous request sets the status of sample project 1 to \<open>ARCHIVED\<close>.\<close>

theorem update_project_unchecked_witness:
  "get_project sample_db 1 = Inr (projects sample_db ! 0)
   \<and> fst (update_project_mutate sample_db AnonymousUser 1 ''ARCHIVED'')
       = Inr ((projects sample_db ! 0)\<lparr>project_status := ''ARCHIVED''\<rparr>)
   \<and> get_project (snd (update_project_mutate sample_db AnonymousUser 1 ''ARCHIVED'')) 1
       = Inr ((projects sample_db ! 0)\<lparr>project_status := ''ARCHIVED''\<rparr>)"
proof -
  have h: "get_project sample_db 1 = Inr (projects sample_db ! 0)"
    by (simp add: sample_db_def get_project_def objects_get_def)
  show ?thesis
    using h update_project_unchecked [OF h, of AnonymousUser "''ARCHIVED''"] by simp
qed

section \<open>Creating a task\<close>

text \<open>
  Claim C10. CreateTask checks neither authentication nor membership: for every request
  user, the anonymous one included, CreateTask on an existing project succeeds and
  creates the task, with the given title and a key no task had, in that project.
\<close>

theorem create_task_unchecked:
  assumes "get_project d pid = Inr p"
  shows "\<exists>t. create_task_mutate dflt d usr pid ttl = (Inr t, d\<lparr>tasks := tasks d @ [t]\<rparr>)
             \<and> task_project t = pid \<and> title t = ttl
             \<and> task_id t \<notin> task_id ` set (tasks d)
             \<and> t \<in> set (project_tasks (d\<lparr>tasks := tasks d @ [t]\<rparr>) p)"
proof -
  define t where "t = dflt\<lparr>task_id := next_pk (map task_id (tasks d)),
                           task_project := project_id p, title := ttl\<rparr>"
  have key: "project_id p = pid" using assms by (rule get_project_key)
  have run: "create_task_mutate dflt d usr pid ttl = (Inr t, d\<lparr>tasks := tasks d @ [t]\<rparr>)"
    using assms by (simp add: create_task_mutate_def t_def Let_def)
  have fresh: "task_id t \<notin> task_id ` set (tasks d)"
    using next_pk_fresh [of "map task_id (tasks d)"] by (simp add: t_def)
  have "task_project t = pid" "title t = ttl"
    by (simp_all add: t_def key)
  moreover have "t \<in> set (project_tasks (d\<lparr>tasks := tasks d @ [t]\<rparr>) p)"
    by (simp add: project_tasks_def t_def)
  ultimately show ?thesis using run fresh by blast
qed

text \<open>An anonymous request adds a fifth task to sample project 1.\<close>

theorem create_task_unchecked_witness:
  "get_project sample_db 1 = Inr (projects sample_db ! 0)
   \<and> (\<exists>t. fst (create_task_mutate (sample_task 0 ''TODO'') sample_db AnonymousUser 1 ''new'')
             = Inr t
          \<and> task_project t = 1 \<and> title t = ''new'')"
proof -
  have h: "get_project sample_db 1 = Inr (projects sample_db ! 0)"
    by (simp add: sample_db_def get_project_def objects_get_def)
  from create_task_unchecked [OF h, of "sample_task 0 ''TODO''" AnonymousUser "''new''"]
  obtain t where
    "create_task_mutate (sample_task 0 ''TODO'') sample_db AnonymousUser 1 ''new''
       = (Inr t, sample_db\<lparr>tasks := tasks sample_db @ [t]\<rparr>)"
    "task_project t = 1" "title t = ''new''"
    by blast
  then show ?thesis using h by auto
qed

section \<open>Registration\<close>

text \<open>
  Claim C9. Register fails with the error "Username already exists" whenever a user
  with the given username exists, and the failure changes nothing: the database after
  the call is the database before it (no user is created, no organization is created or
  changed), and the call returns no user, organization or token.
\<close>

theorem register_duplicate_username:
  assumes "\<exists>u \<in> set (users d). username u = uname"
  shows "register_mutate c d uname pw mail organization_name
           = (Inl (Exception ''Username already exists''), d)"
  using assms by (simp add: register_mutate_def)

text \<open>A second alice is refused, whatever organization she names.\<close>

theorem register_duplicate_username_witness:
  "(\<exists>u \<in> set (users sample_db). username u = ''alice'')
   \<and> register_mutate demo sample_db ''alice'' ''pw2'' ''a2@x.com'' ''Other''
       = (Inl (Exception ''Username already exists''), sample_db)"
proof -
  have h: "\<exists>u \<in> set (users sample_db). username u = ''alice''"
    by (simp add: sample_db_def)
  show ?thesis
    using h register_duplicate_username [OF h, of demo "''pw2''" "''a2@x.com''" "''Other''"]
    by simp
qed

section \<open>Updating a task\<close>

lemma get_task_Inr_iff:
  "get_task d tid = Inr t \<longleftrightarrow> filter (\<lambda>s. task_id s = tid) (tasks d) = [t]"
  by (simp add: get_task_def objects_get_Inr_iff)

lemma get_task_key: "get_task d tid = Inr t \<Longrightarrow> task_id t = tid"
proof -
  assume "get_task d tid = Inr t"
  then have "t \<in> set (filter (\<lambda>s. task_id s = tid) (tasks d))"
    by (simp add: get_task_Inr_iff)
  then show ?thesis by simp
qed

lemma get_task_saved:
  assumes "get_task d tid = Inr t" and "task_id t' = tid"
  shows "get_task (save_task t' d) tid = Inr t'"
proof -
  have "filter (\<lambda>s. task_id s = tid)
          (map (\<lambda>s. if task_id s = task_id t' then t' else s) (tasks d)) = [t']"
    using assms filter_overwrite [of task_id t' tid "tasks d"]
    by (simp add: get_task_Inr_iff)
  then show ?thesis by (simp add: get_task_Inr_iff save_task_def)
qed

text \<open>The assignment step either raises or sets the one field.\<close>

lemma assign_Inr:
  "assign d usr t assignee = Inr t1 \<Longrightarrow>
   t1 = (case assignee of None \<Rightarrow> t | Some a \<Rightarrow> t\<lparr>assignee_email := Some a\<rparr>)"
  by (auto simp: assign_def split: option.splits sum.splits if_splits)

lemma assign_status: "assign d usr t assignee = Inr t1 \<Longrightarrow> status t1 = status t"
  by (drule assign_Inr) (simp split: option.splits)

text \<open>The three patches, field by field.\<close>

lemma patched_key:
  "task_id (patch_due_date dd (patch_description ds (patch_status st t))) = task_id t"
  by (simp add: patch_due_date_def patch_description_def patch_status_def
      split: option.splits)

lemma patched_status:
  "status (patch_due_date dd (patch_description ds (patch_status st t)))
     = (case st of None \<Rightarrow> status t | Some s \<Rightarrow> if s = [] then status t else s)"
  by (simp add: patch_due_date_def patch_description_def patch_status_def
      split: option.splits)

lemma patched_description:
  "description (patch_due_date dd (patch_description ds (patch_status st t)))
     = (case ds of None \<Rightarrow> description t | Some x \<Rightarrow> x)"
  by (simp add: patch_due_date_def patch_description_def patch_status_def
      split: option.splits)

text \<open>A call that returns a task went through the assignment step and saved the patched task.\<close>

lemma update_task_Inr:
  assumes "get_task d tid = Inr t"
      and "update_task_mutate d usr tid st ds assignee dd = (Inr t', d')"
  shows "\<exists>t1. assign d usr t assignee = Inr t1
              \<and> t' = patch_due_date dd (patch_description ds (patch_status st t1))
              \<and> d' = save_task t' d"
  using assms
  by (auto simp: update_task_mutate_def Let_def split: sum.splits)

lemma update_task_unassigned:
  assumes "get_task d tid = Inr t"
  shows "update_task_mutate d usr tid st ds None dd
           = (Inr (patch_due_date dd (patch_description ds (patch_status st t))),
              save_task (patch_due_date dd (patch_description ds (patch_status st t))) d)"
  using assms by (simp add: update_task_mutate_def assign_def Let_def)

text \<open>
  Claim C3. When UpdateTask is given an assignee e-mail for a task whose organization
  has an owner, and the request user is not that owner, the call fails with the error
  "Only the Organization Admin can assign tasks." and writes nothing: the database
  after the call is the database before it, whatever status, description and due date
  the call also carried, so the task reads back as it was.
\<close>

theorem update_task_assign_denied:
  assumes "get_task d tid = Inr t"
      and "get_project d (task_project t) = Inr p"
      and "get_organization d (project_organization p) = Inr org"
      and "owner org = Some w"
      and "usr \<noteq> User w"
  shows "update_task_mutate d usr tid st ds (Some a) dd
           = (Inl (Exception ''Only the Organization Admin can assign tasks.''), d)
         \<and> get_task (snd (update_task_mutate d usr tid st ds (Some a) dd)) tid = Inr t"
proof -
  have "assign d usr t (Some a)
          = Inl (Exception ''Only the Organization Admin can assign tasks.'')"
    using assms(2-5) by (auto simp: assign_def)
  then have "update_task_mutate d usr tid st ds (Some a) dd
               = (Inl (Exception ''Only the Organization Admin can assign tasks.''), d)"
    using assms(1) by (simp add: update_task_mutate_def)
  then show ?thesis using assms(1) by simp
qed

text \<open>
  Bob, a member but not the owner of Acme, tries to reassign task 3 and to finish it in
  the same call.
\<close>

theorem update_task_assign_denied_witness:
  "get_task sample_db 3 = Inr (sample_task 3 ''TODO'')
   \<and> get_project sample_db 1 = Inr (projects sample_db ! 0)
   \<and> get_organization sample_db 1 = Inr (organizations sample_db ! 0)
   \<and> owner (organizations sample_db ! 0) = Some 1
   \<and> User 2 \<noteq> User 1
   \<and> update_task_mutate sample_db (User 2) 3 (Some ''DONE'') (Some ''x'')
        (Some ''bob@x.com'') (Some '''')
       = (Inl (Exception ''Only the Organization Admin can assign tasks.''), sample_db)"
proof -
  have h1: "get_task sample_db 3 = Inr (sample_task 3 ''TODO'')"
    by (simp add: sample_db_def sample_task_def get_task_def objects_get_def)
  have h2: "get_project sample_db (task_project (sample_task 3 ''TODO''))
              = Inr (projects sample_db ! 0)"
    by (simp add: sample_db_def sample_task_def get_project_def objects_get_def)
  have h3: "get_organization sample_db (project_organization (projects sample_db ! 0))
              = Inr (organizations sample_db ! 0)"
    by (simp add: sample_db_def get_organization_def objects_get_def)
  have h4: "owner (organizations sample_db ! 0) = Some 1"
    by (simp add: sample_db_def)
  have h5: "User 2 \<noteq> User 1" by simp
  have k1: "task_project (sample_task 3 ''TODO'') = 1" by (simp add: sample_task_def)
  have k2: "project_organization (projects sample_db ! 0) = 1" by (simp add: sample_db_def)
  show ?thesis
    using h1 h2 h3 h4 k1 k2
      update_task_assign_denied [OF h1 h2 h3 h4 h5, of "Some ''DONE''" "Some ''x''"
        "''bob@x.com''" "Some ''''"]
    by simp
qed

text \<open>
  Claim C5. For every existing task, UpdateTask with only the status \<open>DONE\<close> given
  (description, assignee e-mail and due date absent) succeeds for any request user,
  sets the status to \<open>DONE\<close>, and leaves description, assignee e-mail and due date
  as they were; the saved row reads back so.
\<close>

theorem update_task_status_only:
  assumes "get_task d tid = Inr t"
  shows "update_task_mutate d usr tid (Some ''DONE'') None None None
           = (Inr (t\<lparr>status := ''DONE''\<rparr>), save_task (t\<lparr>status := ''DONE''\<rparr>) d)
         \<and> get_task (save_task (t\<lparr>status := ''DONE''\<rparr>) d) tid = Inr (t\<lparr>status := ''DONE''\<rparr>)
         \<and> status (t\<lparr>status := ''DONE''\<rparr>) = ''DONE''
         \<and> description (t\<lparr>status := ''DONE''\<rparr>) = description t
         \<and> assignee_email (t\<lparr>status := ''DONE''\<rparr>) = assignee_email t
         \<and> due_date (t\<lparr>status := ''DONE''\<rparr>) = due_date t"
proof -
  have "patch_due_date None (patch_description None (patch_status (Some ''DONE'') t))
          = t\<lparr>status := ''DONE''\<rparr>"
    by (simp add: patch_due_date_def patch_description_def patch_status_def)
  then have run: "update_task_mutate d usr tid (Some ''DONE'') None None None
           = (Inr (t\<lparr>status := ''DONE''\<rparr>), save_task (t\<lparr>status := ''DONE''\<rparr>) d)"
    using update_task_unassigned [OF assms, of usr "Some ''DONE''" None None] by simp
  have "task_id (t\<lparr>status := ''DONE''\<rparr>) = tid"
    using get_task_key [OF assms] by simp
  with assms have "get_task (save_task (t\<lparr>status := ''DONE''\<rparr>) d) tid
                     = Inr (t\<lparr>status := ''DONE''\<rparr>)"
    by (rule get_task_saved)
  with run show ?thesis by simp
qed

text \<open>Carol finishes task 3 of the sample.\<close>

theorem update_task_status_only_witness:
  "get_task sample_db 3 = Inr (sample_task 3 ''TODO'')
   \<and> fst (update_task_mutate sample_db (User 3) 3 (Some ''DONE'') None None None)
       = Inr (sample_task 3 ''DONE'')"
proof -
  have h: "get_task sample_db 3 = Inr (sample_task 3 ''TODO'')"
    by (simp add: sample_db_def sample_task_def get_task_def objects_get_def)
  show ?thesis
    using h update_task_status_only [OF h, of "User 3"]
    by (simp add: sample_task_def)
qed

text \<open>
  Claim C7. For every existing task, an UpdateTask call whose status is the empty
  string leaves the task's status as it was (the empty string counts as not provided,
  so UpdateTask never writes an empty status), while a call whose description is the
  empty string overwrites the description with the empty string.
\<close>

theorem update_task_empty_strings:
  assumes "get_task d tid = Inr t"
  shows "(\<forall>t' d'. update_task_mutate d usr tid (Some '''') ds assignee dd = (Inr t', d')
            \<longrightarrow> status t' = status t)
         \<and> (\<forall>t' d'. update_task_mutate d usr tid st (Some '''') assignee dd = (Inr t', d')
            \<longrightarrow> description t' = '''')
         \<and> update_task_mutate d usr tid (Some '''') (Some '''') None None
             = (Inr (t\<lparr>description := ''''\<rparr>), save_task (t\<lparr>description := ''''\<rparr>) d)
         \<and> get_task (save_task (t\<lparr>description := ''''\<rparr>) d) tid = Inr (t\<lparr>description := ''''\<rparr>)"
proof -
  have keep: "status t' = status t"
    if run: "update_task_mutate d usr tid (Some '''') ds assignee dd = (Inr t', d')" for t' d'
  proof -
    from update_task_Inr [OF assms run] obtain t1 where
      "assign d usr t assignee = Inr t1"
      "t' = patch_due_date dd (patch_description ds (patch_status (Some '''') t1))"
      by blast
    then show ?thesis using assign_status [of d usr t assignee t1] by (simp add: patched_status)
  qed
  have wipe: "description t' = ''''"
    if run: "update_task_mutate d usr tid st (Some '''') assignee dd = (Inr t', d')" for t' d'
  proof -
    from update_task_Inr [OF assms run] obtain t1 where
      "t' = patch_due_date dd (patch_description (Some '''') (patch_status st t1))"
      by blast
    then show ?thesis by (simp add: patched_description)
  qed
  have "patch_due_date None (patch_description (Some '''') (patch_status (Some '''') t))
          = t\<lparr>description := ''''\<rparr>"
    by (simp add: patch_due_date_def patch_description_def patch_status_def)
  then have both: "update_task_mutate d usr tid (Some '''') (Some '''') None None
             = (Inr (t\<lparr>description := ''''\<rparr>), save_task (t\<lparr>description := ''''\<rparr>) d)"
    using update_task_unassigned [OF assms, of usr "Some ''''" "Some ''''" None] by simp
  have "task_id (t\<lparr>description := ''''\<rparr>) = tid"
    using get_task_key [OF assms] by simp
  with assms have "get_task (save_task (t\<lparr>description := ''''\<rparr>) d) tid
                     = Inr (t\<lparr>description := ''''\<rparr>)"
    by (rule get_task_saved)
  with keep wipe both show ?thesis by blast
qed

text \<open>
  Alice sends empty strings for both fields of task 3: the status stays \<open>TODO\<close>, the
  description becomes empty.
\<close>

theorem update_task_empty_strings_witness:
  "get_task sample_db 3 = Inr (sample_task 3 ''TODO'')
   \<and> fst (update_task_mutate sample_db (User 1) 3 (Some '''') (Some '''') None None)
       = Inr ((sample_task 3 ''TODO'')\<lparr>description := ''''\<rparr>)
   \<and> status ((sample_task 3 ''TODO'')\<lparr>description := ''''\<rparr>) = ''TODO''"
proof -
  have h: "get_task sample_db 3 = Inr (sample_task 3 ''TODO'')"
    by (simp add: sample_db_def sample_task_def get_task_def objects_get_def)
  show ?thesis
    using h update_task_empty_strings [OF h, of "User 1"]
    by (simp add: sample_task_def)
qed

text \<open>Saving the row that was appended last, when no older row has its key.\<close>

lemma save_last_row:
  assumes "\<forall>x \<in> set xs. f x \<noteq> f r" and "f r0 = f r"
  shows "map (\<lambda>x. if f x = f r then r else x) (xs @ [r0]) = xs @ [r]"
proof -
  have "map (\<lambda>x. if f x = f r then r else x) xs = xs"
    using assms(1) by (induction xs) auto
  then show ?thesis using assms(2) by simp
qed

lemma next_pk_fresh_row: "\<forall>x \<in> set xs. f x \<noteq> next_pk (map f xs)"
proof
  fix x
  assume "x \<in> set xs"
  then have "f x \<in> set (map f xs)" by simp
  then show "f x \<noteq> next_pk (map f xs)"
    using next_pk_fresh [of "map f xs"] by metis
qed

text \<open>
  A registration under a new username (not empty) and a slug no organization has:
  the user is inserted, the organization is created with the user as owner and only
  member.
\<close>

lemma register_creates:
  assumes "\<forall>u \<in> set (users d). username u \<noteq> uname" and "uname \<noteq> []"
      and "\<forall>g \<in> set (organizations d). slug g \<noteq> slugify c organization_name"
      and "usr = \<lparr>user_id = next_pk (map user_id (users d)), username = uname,
                   email = mail, password = make_password c pw\<rparr>"
      and "org = \<lparr>org_id = next_pk (map org_id (organizations d)), name = organization_name,
                   slug = slugify c organization_name, owner = Some (user_id usr),
                   members = [user_id usr]\<rparr>"
  shows "register_mutate c d uname pw mail organization_name
           = (Inr (usr, org, get_token c usr),
              d\<lparr>users := users d @ [usr], organizations := organizations d @ [org]\<rparr>)"
proof -
  let ?d1 = "d\<lparr>users := users d @ [usr]\<rparr>"
  let ?org0 = "org\<lparr>members := []\<rparr>"
  have user: "create_user c d uname mail pw = (Inr usr, ?d1)"
    using assms(2,4) by (simp add: create_user_def Let_def)
  have "get_organization_by_slug ?d1 (slugify c organization_name)
          = Inl (DoesNotExist ''Organization'')"
    unfolding get_organization_by_slug_def
    using assms(3) by (intro objects_get_absent) simp
  then have org0: "get_or_create_organization ?d1 organization_name
                      (slugify c organization_name) usr
                    = (Inr ?org0, ?d1\<lparr>organizations := organizations d @ [?org0]\<rparr>)"
    by (simp add: get_or_create_organization_def create_organization_def Let_def assms(5))
  have added: "org\<lparr>members := members_add (user_id usr) []\<rparr> = org"
    by (simp add: members_add_def assms(5))
  have "\<forall>g \<in> set (organizations d). org_id g \<noteq> org_id org"
    using next_pk_fresh_row [of "organizations d" org_id] by (simp add: assms(5))
  then have "map (\<lambda>g. if org_id g = org_id org then org else g) (organizations d @ [?org0])
               = organizations d @ [org]"
    by (rule save_last_row) simp
  then have saved: "save_organization org (?d1\<lparr>organizations := organizations d @ [?org0]\<rparr>)
                      = d\<lparr>users := users d @ [usr], organizations := organizations d @ [org]\<rparr>"
    by (simp add: save_organization_def)
  have "\<not> (\<exists>u \<in> set (users d). username u = uname)"
    using assms(1) by blast
  then show ?thesis
    by (simp add: register_mutate_def user org0 added saved Let_def)
qed

text \<open>
  A registration under a new username and the slug of exactly one organization, the row
  appended last: the user is inserted and added to the members, nothing else of the
  organization changes.
\<close>

lemma register_joins:
  assumes "\<forall>u \<in> set (users d). username u \<noteq> uname" and "uname \<noteq> []"
      and "organizations d = gs @ [org]"
      and "\<forall>g \<in> set gs. slug g \<noteq> slugify c organization_name \<and> org_id g \<noteq> org_id org"
      and "slug org = slugify c organization_name"
      and "usr = \<lparr>user_id = next_pk (map user_id (users d)), username = uname,
                   email = mail, password = make_password c pw\<rparr>"
      and "org' = org\<lparr>members := members_add (user_id usr) (members org)\<rparr>"
  shows "register_mutate c d uname pw mail organization_name
           = (Inr (usr, org', get_token c usr),
              d\<lparr>users := users d @ [usr], organizations := gs @ [org']\<rparr>)"
proof -
  let ?d1 = "d\<lparr>users := users d @ [usr]\<rparr>"
  have user: "create_user c d uname mail pw = (Inr usr, ?d1)"
    using assms(2,6) by (simp add: create_user_def Let_def)
  have "filter (\<lambda>g. slug g = slugify c organization_name) (organizations ?d1) = [org]"
    using assms(3,4,5) by (simp add: filter_False)
  then have "get_organization_by_slug ?d1 (slugify c organization_name) = Inr org"
    by (simp add: get_organization_by_slug_def objects_get_Inr_iff)
  then have found: "get_or_create_organization ?d1 organization_name
                       (slugify c organization_name) usr = (Inr org, ?d1)"
    by (simp add: get_or_create_organization_def)
  have "\<forall>g \<in> set gs. org_id g \<noteq> org_id org'"
    using assms(4) by (simp add: assms(7))
  then have "map (\<lambda>g. if org_id g = org_id org' then org' else g) (gs @ [org]) = gs @ [org']"
    by (rule save_last_row) (simp add: assms(7))
  then have saved: "save_organization org' ?d1
                      = d\<lparr>users := users d @ [usr], organizations := gs @ [org']\<rparr>"
    by (simp add: save_organization_def assms(3))
  have "\<not> (\<exists>u \<in> set (users d). username u = uname)"
    using assms(1) by blast
  then show ?thesis
    by (simp add: register_mutate_def user found saved [unfolded assms(7)] Let_def assms(7))
qed

text \<open>
  Claim C1. Take two Register calls, one after the other, whose organization names
  slugify to the same slug, in a database where no organization has that slug yet and
  under two different new usernames (so that both calls pass the username check). Both
  succeed, and afterwards exactly one organization has the slug: the first call creates
  it with the first user as owner, the second call joins it as a plain member, the
  owner is still the first user, and the members are exactly the two users.
\<close>

theorem register_twice_one_organization:
  assumes "slugify c n1 = slugify c n2"
      and "\<forall>g \<in> set (organizations d). slug g \<noteq> slugify c n1"
      and "\<forall>u \<in> set (users d). username u \<noteq> un1 \<and> username u \<noteq> un2"
      and "un1 \<noteq> un2" and "un1 \<noteq> []" and "un2 \<noteq> []"
  shows "\<exists>u1 o1 t1 d1 u2 o2 t2 d2.
           register_mutate c d un1 pw1 em1 n1 = (Inr (u1, o1, t1), d1)
         \<and> register_mutate c d1 un2 pw2 em2 n2 = (Inr (u2, o2, t2), d2)
         \<and> filter (\<lambda>g. slug g = slugify c n1) (organizations d1) = [o1]
         \<and> owner o1 = Some (user_id u1) \<and> members o1 = [user_id u1]
         \<and> filter (\<lambda>g. slug g = slugify c n1) (organizations d2) = [o2]
         \<and> org_id o2 = org_id o1 \<and> owner o2 = Some (user_id u1)
         \<and> user_id u1 \<noteq> user_id u2
         \<and> set (members o2) = {user_id u1, user_id u2}
         \<and> u1 \<in> set (users d2) \<and> u2 \<in> set (users d2)"
proof -
  define u1 where "u1 = \<lparr>user_id = next_pk (map user_id (users d)), username = un1,
                         email = em1, password = make_password c pw1\<rparr>"
  define o1 where "o1 = \<lparr>org_id = next_pk (map org_id (organizations d)), name = n1,
                         slug = slugify c n1, owner = Some (user_id u1),
                         members = [user_id u1]\<rparr>"
  define d1 where "d1 = d\<lparr>users := users d @ [u1], organizations := organizations d @ [o1]\<rparr>"
  define u2 where "u2 = \<lparr>user_id = next_pk (map user_id (users d1)), username = un2,
                         email = em2, password = make_password c pw2\<rparr>"
  define o2 where "o2 = o1\<lparr>members := members_add (user_id u2) (members o1)\<rparr>"
  define d2 where "d2 = d1\<lparr>users := users d1 @ [u2], organizations := organizations d @ [o2]\<rparr>"
  have first: "register_mutate c d un1 pw1 em1 n1 = (Inr (u1, o1, get_token c u1), d1)"
    unfolding d1_def
    using assms(2,3,5) by (intro register_creates) (simp_all add: u1_def o1_def)
  have names: "\<forall>u \<in> set (users d1). username u \<noteq> un2"
    using assms(3,4) by (simp add: d1_def u1_def)
  have others: "\<forall>g \<in> set (organizations d). slug g \<noteq> slugify c n2 \<and> org_id g \<noteq> org_id o1"
    using assms(1,2) next_pk_fresh_row [of "organizations d" org_id] by (simp add: o1_def)
  have second: "register_mutate c d1 un2 pw2 em2 n2 = (Inr (u2, o2, get_token c u2), d2)"
    unfolding d2_def
    using names assms(6) _ others
    by (rule register_joins) (simp_all add: d1_def o1_def u2_def o2_def assms(1))
  have "u1 \<in> set (users d1)" by (simp add: d1_def)
  then have ids: "user_id u1 \<noteq> user_id u2"
    using next_pk_fresh_row [of "users d1" user_id] by (auto simp: u2_def)
  have one1: "filter (\<lambda>g. slug g = slugify c n1) (organizations d1) = [o1]"
    using assms(2) by (simp add: d1_def o1_def filter_False)
  have one2: "filter (\<lambda>g. slug g = slugify c n1) (organizations d2) = [o2]"
    using assms(2) by (simp add: d2_def d1_def o2_def o1_def filter_False)
  have mem: "set (members o2) = {user_id u1, user_id u2}"
    using ids by (auto simp: o2_def o1_def members_add_def)
  have "owner o1 = Some (user_id u1)" "members o1 = [user_id u1]"
       "org_id o2 = org_id o1" "owner o2 = Some (user_id u1)"
       "u1 \<in> set (users d2)" "u2 \<in> set (users d2)"
    by (simp_all add: o1_def o2_def d2_def d1_def)
  with first second one1 one2 ids mem show ?thesis by blast
qed

text \<open>
  Alice registers with "Acme" and bob with "ACME" in the empty database: both names
  slugify to \<open>acme\<close>, the one organization is owned by alice (key 1) and has the
  members 1 and 2.
\<close>

theorem register_twice_one_organization_witness:
  "slugify demo ''Acme'' = slugify demo ''ACME''
   \<and> (\<exists>u1 o1 t1 d1 u2 o2 t2 d2.
         register_mutate demo empty_db ''alice'' ''pw'' ''a@x.com'' ''Acme''
           = (Inr (u1, o1, t1), d1)
       \<and> register_mutate demo d1 ''bob'' ''pw'' ''b@x.com'' ''ACME'' = (Inr (u2, o2, t2), d2)
       \<and> filter (\<lambda>g. slug g = slugify demo ''Acme'') (organizations d2) = [o2]
       \<and> owner o2 = Some (user_id u1)
       \<and> set (members o2) = {user_id u1, user_id u2})
   \<and> fst (register_mutate demo
            (snd (register_mutate demo empty_db ''alice'' ''pw'' ''a@x.com'' ''Acme''))
            ''bob'' ''pw'' ''b@x.com'' ''ACME'')
       = Inr (\<lparr>user_id = 2, username = ''bob'', email = ''b@x.com'', password = ''hashed:pw''\<rparr>,
              \<lparr>org_id = 1, name = ''Acme'', slug = ''acme'', owner = Some 1, members = [1, 2]\<rparr>,
              ''token:bob'')"
proof -
  have h1: "slugify demo ''Acme'' = slugify demo ''ACME''" by code_simp
  have h2: "\<forall>g \<in> set (organizations empty_db). slug g \<noteq> slugify demo ''Acme''"
    by (simp add: empty_db_def)
  have h3: "\<forall>u \<in> set (users empty_db). username u \<noteq> ''alice'' \<and> username u \<noteq> ''bob''"
    by (simp add: empty_db_def)
  have h4: "''alice'' \<noteq> ''bob''" "''alice'' \<noteq> []" "''bob'' \<noteq> []" by simp_all
  have run: "fst (register_mutate demo
            (snd (register_mutate demo empty_db ''alice'' ''pw'' ''a@x.com'' ''Acme''))
            ''bob'' ''pw'' ''b@x.com'' ''ACME'')
       = Inr (\<lparr>user_id = 2, username = ''bob'', email = ''b@x.com'', password = ''hashed:pw''\<rparr>,
              \<lparr>org_id = 1, name = ''Acme'', slug = ''acme'', owner = Some 1, members = [1, 2]\<rparr>,
              ''token:bob'')"
    by code_simp
  from register_twice_one_organization [OF h1 h2 h3 h4,
         of "''pw''" "''a@x.com''" "''pw''" "''b@x.com''"]
  have "\<exists>u1 o1 t1 d1 u2 o2 t2 d2.
         register_mutate demo empty_db ''alice'' ''pw'' ''a@x.com'' ''Acme''
           = (Inr (u1, o1, t1), d1)
       \<and> register_mutate demo d1 ''bob'' ''pw'' ''b@x.com'' ''ACME'' = (Inr (u2, o2, t2), d2)
       \<and> filter (\<lambda>g. slug g = slugify demo ''Acme'') (organizations d2) = [o2]
       \<and> owner o2 = Some (user_id u1)
       \<and> set (members o2) = {user_id u1, user_id u2}"
    by blast
  with h1 run show ?thesis by blast
qed

section \<open>The completion rate\<close>

text \<open>Rounding to an integer is monotone at integers, and \<open>ilog2\<close> is the binary exponent.\<close>

lemma round_half_even_le:
  assumes "x \<le> of_int n"
  shows "round_half_even x \<le> n"
proof (cases "x = of_int n")
  case True
  then show ?thesis by (simp add: round_half_even_def)
next
  case False
  with assms have "x < of_int n" by simp
  then have "\<lfloor>x\<rfloor> < n" by (simp add: floor_less_iff)
  then show ?thesis by (simp add: round_half_even_def Let_def)
qed

lemma round_half_even_nonneg:
  assumes "0 \<le> x"
  shows "0 \<le> round_half_even x"
proof -
  from assms have "0 \<le> \<lfloor>x\<rfloor>" by simp
  then show ?thesis by (simp add: round_half_even_def Let_def)
qed

lemma two_powi_nonpos:
  assumes "e \<le> 0"
  shows "(2::rat) powi e = 1 / 2 ^ nat (- e)"
proof (cases "e = 0")
  case True
  then show ?thesis by simp
next
  case False
  with assms have "\<not> 0 \<le> e" by simp
  then show ?thesis by (simp add: power_int_def inverse_eq_divide power_one_over)
qed

lemma ilog2_lower:
  assumes "0 < x"
  shows "2 powi (ilog2 x) \<le> x"
proof (cases "1 \<le> x")
  case True
  then have pos: "0 < \<lfloor>x\<rfloor>" by simp
  then have "1 \<le> bitlen \<lfloor>x\<rfloor>" by (simp add: bitlen_alt_def)
  then have "(2::rat) powi (bitlen \<lfloor>x\<rfloor> - 1) = 2 ^ nat (bitlen \<lfloor>x\<rfloor> - 1)"
    by (simp add: power_int_def)
  also have "\<dots> = of_int (2 ^ nat (bitlen \<lfloor>x\<rfloor> - 1))" by simp
  also have "\<dots> \<le> of_int \<lfloor>x\<rfloor>"
    using bitlen_bounds [OF pos] by (simp only: of_int_le_iff)
  also have "\<dots> \<le> x" by simp
  finally show ?thesis using True by (simp add: ilog2_def)
next
  case False
  define n where "n = \<lceil>1 / x\<rceil>"
  define L where "L = bitlen (n - 1)"
  from False assms have "1 < 1 / x" by simp
  then have "1 < n" unfolding n_def by (simp add: less_ceiling_iff)
  then have pos: "0 < n - 1" by simp
  have L0: "0 \<le> L" by (simp add: L_def bitlen_nonneg)
  have "n - 1 < 2 ^ nat L" using bitlen_bounds [OF pos] by (simp add: L_def)
  then have "n \<le> 2 ^ nat L" by simp
  then have "(of_int n :: rat) \<le> of_int (2 ^ nat L)" by (simp only: of_int_le_iff)
  then have "(of_int n :: rat) \<le> 2 ^ nat L" by simp
  moreover have "1 / x \<le> of_int n" by (simp add: n_def)
  ultimately have "1 / x \<le> 2 ^ nat L" by (rule order_trans [rotated])
  then have "1 \<le> 2 ^ nat L * x"
    using assms by (simp add: field_simps)
  then have "1 / 2 ^ nat L \<le> x" by (simp add: field_simps)
  moreover have "(2::rat) powi (- L) = 1 / 2 ^ nat L"
    using L0 two_powi_nonpos [of "- L"] by simp
  ultimately show ?thesis using False by (simp add: ilog2_def n_def L_def)
qed

lemma ilog2_upper:
  assumes "0 < x"
  shows "x < 2 powi (ilog2 x + 1)"
proof (cases "1 \<le> x")
  case True
  then have pos: "0 < \<lfloor>x\<rfloor>" by simp
  then have b1: "1 \<le> bitlen \<lfloor>x\<rfloor>" by (simp add: bitlen_alt_def)
  have "\<lfloor>x\<rfloor> + 1 \<le> 2 ^ nat (bitlen \<lfloor>x\<rfloor>)" using bitlen_bounds [OF pos] by simp
  then have "(of_int (\<lfloor>x\<rfloor> + 1) :: rat) \<le> of_int (2 ^ nat (bitlen \<lfloor>x\<rfloor>))"
    by (simp only: of_int_le_iff)
  moreover have "x < of_int (\<lfloor>x\<rfloor> + 1)" by linarith
  ultimately have "x < 2 ^ nat (bitlen \<lfloor>x\<rfloor>)" by simp
  moreover have "(2::rat) powi (bitlen \<lfloor>x\<rfloor>) = 2 ^ nat (bitlen \<lfloor>x\<rfloor>)"
    using b1 by (simp add: power_int_def)
  ultimately show ?thesis using True by (simp add: ilog2_def)
next
  case False
  define n where "n = \<lceil>1 / x\<rceil>"
  define L where "L = bitlen (n - 1)"
  from False assms have "1 < 1 / x" by simp
  then have "1 < n" unfolding n_def by (simp add: less_ceiling_iff)
  then have pos: "0 < n - 1" by simp
  then have L1: "1 \<le> L" by (simp add: L_def bitlen_alt_def)
  have "2 ^ nat (L - 1) \<le> n - 1" using bitlen_bounds [OF pos] by (simp add: L_def)
  then have "(of_int (2 ^ nat (L - 1)) :: rat) \<le> of_int (n - 1)" by (simp only: of_int_le_iff)
  moreover have "of_int (n - 1) < 1 / x" unfolding n_def by linarith
  ultimately have "2 ^ nat (L - 1) < 1 / x" by simp
  then have "2 ^ nat (L - 1) * x < 1" using assms by (simp add: field_simps)
  then have "x < 1 / 2 ^ nat (L - 1)" by (simp add: field_simps)
  moreover have "(2::rat) powi (- L + 1) = 1 / 2 ^ nat (L - 1)"
    using L1 two_powi_nonpos [of "- L + 1"] by simp
  ultimately show ?thesis using False by (simp add: ilog2_def n_def L_def)
qed

lemma round64_bounds:
  assumes "0 \<le> x" and "x \<le> of_nat N" and "N < 2 ^ 53"
  shows "0 \<le> round64 x \<and> round64 x \<le> of_nat N"
proof (cases "x = 0")
  case True
  then show ?thesis by (simp add: round64_def)
next
  case False
  with assms(1) have pos: "0 < x" by simp
  define e where "e = max (ilog2 x - 52) (- 1074)"
  define k where "k = nat (- e)"
  have "2 powi (ilog2 x) \<le> x" using pos by (rule ilog2_lower)
  also have "x \<le> of_nat N" by (rule assms(2))
  also have "(of_nat N :: rat) < of_nat (2 ^ 53)" using assms(3) by (simp only: of_nat_less_iff)
  also have "(of_nat (2 ^ 53) :: rat) = 2 powi 53" by simp
  finally have "(2::rat) powi (ilog2 x) < 2 powi 53" .
  have "ilog2 x < 53"
  proof (rule ccontr)
    assume "\<not> ilog2 x < 53"
    then have "53 \<le> ilog2 x" by simp
    then have "(2::rat) powi 53 \<le> 2 powi (ilog2 x)" by (rule power_int_increasing) simp
    with \<open>(2::rat) powi (ilog2 x) < 2 powi 53\<close> show False by simp
  qed
  then have e0: "e \<le> 0" by (simp add: e_def)
  then have pw: "(2::rat) powi e = 1 / 2 ^ k"
    unfolding k_def by (rule two_powi_nonpos)
  have val: "round64 x = of_int (round_half_even (x * 2 ^ k)) / 2 ^ k"
    using False pos by (simp add: round64_def e_def [symmetric] pw Let_def)
  have "0 \<le> x * 2 ^ k" using assms(1) by simp
  then have lo: "0 \<le> round_half_even (x * 2 ^ k)" by (rule round_half_even_nonneg)
  have "x * 2 ^ k \<le> of_nat N * 2 ^ k" using assms(2) by simp
  also have "\<dots> = of_int (int N * 2 ^ k)" by simp
  finally have "round_half_even (x * 2 ^ k) \<le> int N * 2 ^ k" by (rule round_half_even_le)
  then have "(of_int (round_half_even (x * 2 ^ k)) :: rat) \<le> of_int (int N * 2 ^ k)"
    by (simp only: of_int_le_iff)
  then have hi: "of_int (round_half_even (x * 2 ^ k)) / 2 ^ k \<le> (of_nat N :: rat)"
    by (simp add: field_simps)
  from lo hi show ?thesis by (simp add: val)
qed


text \<open>
  Claim C4. For every project the completion rate is the float (completed / total) * 100,
  where completed counts the project's tasks whose status is \<open>DONE\<close> and total
  counts all its tasks, both operations being the float operations of Python; the
  resolver never raises, in particular no division by zero, and the rate lies between 0
  and 100. A project without tasks has rate 0.0, and a project whose tasks have the
  statuses DONE, DONE, TODO, TODO has rate 50.0.
\<close>

theorem completion_rate_formula:
  "resolve_completion_rate d p =
     Inr (Finite
       (if project_tasks d p = [] then 0
        else round64
               (round64
                  (of_nat (length (filter (\<lambda>t. status t = ''DONE'') (project_tasks d p)))
                     / of_nat (length (project_tasks d p)))
                * 100)))
   \<and> (\<exists>v. resolve_completion_rate d p = Inr (Finite v) \<and> 0 \<le> v \<and> v \<le> 100)
   \<and> (project_tasks d p = [] \<longrightarrow> resolve_completion_rate d p = Inr (Finite 0))
   \<and> (map status (project_tasks d p) = [''DONE'', ''DONE'', ''TODO'', ''TODO'']
        \<longrightarrow> resolve_completion_rate d p = Inr (Finite 50))"
proof -
  define n where "n = length (project_tasks d p)"
  define c where "c = length (filter (\<lambda>t. status t = ''DONE'') (project_tasks d p))"
  define q where "q = round64 (of_nat c / of_nat n)"
  define v where "v = (if project_tasks d p = [] then 0 else round64 (q * 100))"
  have big: "(100::rat) < 2 ^ 1024"
  proof -
    have "(100::rat) < 2 ^ 7" by simp
    also have "(2::rat) ^ 7 \<le> 2 ^ 1024" by (rule power_increasing) simp_all
    finally show ?thesis .
  qed
  have run: "resolve_completion_rate d p = Inr (Finite v)"
   and range: "0 \<le> v \<and> v \<le> 100"
  proof -
    show "resolve_completion_rate d p = Inr (Finite v)"
    proof (cases "project_tasks d p = []")
      case True
      then show ?thesis by (simp add: resolve_completion_rate_def v_def)
    next
      case False
      then have n0: "0 < n" by (simp add: n_def)
      have "c \<le> n" by (simp add: c_def n_def)
      then have "(of_nat c :: rat) \<le> of_nat n" by (simp only: of_nat_le_iff)
      then have "(of_nat c :: rat) / of_nat n \<le> of_nat 1"
        using n0 by (simp add: field_simps)
      moreover have "(0::rat) \<le> of_nat c / of_nat n" by simp
      ultimately have "0 \<le> q \<and> q \<le> of_nat 1"
        unfolding q_def by (intro round64_bounds) simp_all
      then have q01: "0 \<le> q" "q \<le> 1" by simp_all
      then have "\<not> 2 ^ 1024 \<le> q" using big by simp
      then have division: "truediv c n = Inr q"
        using n0 by (simp add: truediv_def q_def Let_def)
      have "0 \<le> q * 100" "q * 100 \<le> of_nat 100" using q01 by simp_all
      then have "0 \<le> round64 (q * 100) \<and> round64 (q * 100) \<le> of_nat 100"
        by (intro round64_bounds) simp_all
      then have r: "0 \<le> round64 (q * 100)" "round64 (q * 100) \<le> 100" by simp_all
      then have "\<not> 2 ^ 1024 \<le> round64 (q * 100)" "\<not> round64 (q * 100) \<le> - (2 ^ 1024)"
        using big by simp_all
      then have product: "float_mul q 100 = Finite (round64 (q * 100))"
        by (simp add: float_mul_def Let_def)
      have "resolve_completion_rate d p = Inr (float_mul q 100)"
        using False division n0
        by (simp add: resolve_completion_rate_def Let_def n_def [symmetric] c_def [symmetric])
      then show ?thesis using False by (simp add: product v_def)
    qed
    show "0 \<le> v \<and> v \<le> 100"
    proof (cases "project_tasks d p = []")
      case True
      then show ?thesis by (simp add: v_def)
    next
      case False
      then have n0: "0 < n" by (simp add: n_def)
      have "c \<le> n" by (simp add: c_def n_def)
      then have "(of_nat c :: rat) \<le> of_nat n" by (simp only: of_nat_le_iff)
      then have "(of_nat c :: rat) / of_nat n \<le> of_nat 1"
        using n0 by (simp add: field_simps)
      moreover have "(0::rat) \<le> of_nat c / of_nat n" by simp
      ultimately have "0 \<le> q \<and> q \<le> of_nat 1"
        unfolding q_def by (intro round64_bounds) simp_all
      then have "0 \<le> q * 100" "q * 100 \<le> of_nat 100" by simp_all
      then have "0 \<le> round64 (q * 100) \<and> round64 (q * 100) \<le> of_nat 100"
        by (intro round64_bounds) simp_all
      then show ?thesis using False by (simp add: v_def)
    qed
  qed
  have none: "resolve_completion_rate d p = Inr (Finite 0)" if "project_tasks d p = []"
    using run that by (simp add: v_def)
  have four: "resolve_completion_rate d p = Inr (Finite 50)"
    if st: "map status (project_tasks d p) = [''DONE'', ''DONE'', ''TODO'', ''TODO'']"
  proof -
    have len: "n = 4"
      using arg_cong [OF st, of length] by (simp add: n_def)
    have "c = length (filter (\<lambda>s. s = ''DONE'') (map status (project_tasks d p)))"
      by (simp add: c_def filter_map comp_def)
    also have "\<dots> = 2" by (simp add: st)
    finally have ndone: "c = 2" .
    from len have ne: "project_tasks d p \<noteq> []" by (auto simp: n_def)
    have "round64 (round64 (of_nat 2 / of_nat 4) * 100) = 50" by code_simp
    then have "v = 50" using ne by (simp only: v_def q_def len ndone if_False)
    with run show ?thesis by simp
  qed
  from run have formula: "resolve_completion_rate d p =
     Inr (Finite
       (if project_tasks d p = [] then 0
        else round64
               (round64
                  (of_nat (length (filter (\<lambda>t. status t = ''DONE'') (project_tasks d p)))
                     / of_nat (length (project_tasks d p)))
                * 100)))"
    by (simp only: v_def q_def c_def n_def)
  from formula run range none four show ?thesis by blast
qed

text \<open>
  Project 2 of the sample has no task and project 1 has the four of the claim. With 7
  of 25 tasks finished the two roundings show: the rate is 28 + 1/2^48, which Python
  prints as 28.000000000000004.
\<close>

theorem completion_rate_formula_witness:
  "resolve_completion_rate sample_db (projects sample_db ! 1) = Inr (Finite 0)
   \<and> resolve_completion_rate sample_db (projects sample_db ! 0) = Inr (Finite 50)
   \<and> resolve_completion_rate busy_db (projects sample_db ! 0)
       = Inr (Finite (28 + 1 / 2 ^ 48))"
proof -
  have none: "project_tasks sample_db (projects sample_db ! 1) = []"
    by (simp add: sample_db_def sample_task_def project_tasks_def)
  have four: "map status (project_tasks sample_db (projects sample_db ! 0))
                = [''DONE'', ''DONE'', ''TODO'', ''TODO'']"
    by (simp add: sample_db_def sample_task_def project_tasks_def)
  have total: "length (project_tasks busy_db (projects sample_db ! 0)) = 25"
    by code_simp
  have completed: "length (filter (\<lambda>t. status t = ''DONE'')
                     (project_tasks busy_db (projects sample_db ! 0))) = 7"
    by code_simp
  have rounded: "round64 (round64 (of_nat 7 / of_nat 25) * 100) = 28 + 1 / 2 ^ 48"
    by code_simp
  from total have some: "project_tasks busy_db (projects sample_db ! 0) \<noteq> []"
    by auto
  have busy: "resolve_completion_rate busy_db (projects sample_db ! 0)
                = Inr (Finite (28 + 1 / 2 ^ 48))"
    using completion_rate_formula [of busy_db "projects sample_db ! 0", THEN conjunct1]
    by (simp only: total completed rounded some if_False)
  have empty_rate: "resolve_completion_rate sample_db (projects sample_db ! 1) = Inr (Finite 0)"
    by (rule completion_rate_formula [of sample_db "projects sample_db ! 1",
          THEN conjunct2, THEN conjunct2, THEN conjunct1, THEN mp, OF none])
  have half_rate: "resolve_completion_rate sample_db (projects sample_db ! 0) = Inr (Finite 50)"
    by (rule completion_rate_formula [of sample_db "projects sample_db ! 0",
          THEN conjunct2, THEN conjunct2, THEN conjunct2, THEN mp, OF four])
  from empty_rate half_rate busy show ?thesis by (intro conjI)
qed

section \<open>Which fields UpdateTask writes\<close>

text \<open>The assignment step passes when the organization has no owner or the user is the owner.\<close>

lemma assign_permitted:
  assumes "get_project d (task_project t) = Inr p"
      and "get_organization d (project_organization p) = Inr org"
      and "owner org = None \<or> usr = User w \<and> owner org = Some w"
  shows "assign d usr t (Some a) = Inr (t\<lparr>assignee_email := Some a\<rparr>)"
  using assms by (auto simp: assign_def)

lemma patched_due_date:
  "due_date (patch_due_date dd (patch_description ds (patch_status st t)))
     = (case dd of None \<Rightarrow> due_date t | Some x \<Rightarrow> if x = [] then None else Some x)"
  by (simp add: patch_due_date_def patch_description_def patch_status_def
      split: option.splits)

lemma patched_other_fields:
  "assignee_email (patch_due_date dd (patch_description ds (patch_status st t)))
     = assignee_email t
   \<and> task_project (patch_due_date dd (patch_description ds (patch_status st t)))
     = task_project t
   \<and> title (patch_due_date dd (patch_description ds (patch_status st t))) = title t"
  by (simp add: patch_due_date_def patch_description_def patch_status_def
      split: option.splits)

text \<open>
  Claim C6, as stated: every provided (non-None) status value is written. It fails for
  the empty string, which \<^verbatim>\<open>if status:\<close> treats as not provided: alice sends
  status \<open>""\<close> for task 3 and the task keeps the status \<open>TODO\<close>.
\<close>

theorem update_task_empty_status_counterexample:
  "get_task sample_db 3 = Inr (sample_task 3 ''TODO'')
   \<and> fst (update_task_mutate sample_db (User 1) 3 (Some '''') None None None)
       = Inr (sample_task 3 ''TODO'')
   \<and> status (sample_task 3 ''TODO'') \<noteq> ''''"
  by (simp add: sample_db_def sample_task_def get_task_def objects_get_def
      update_task_mutate_def assign_def patch_due_date_def patch_description_def
      patch_status_def Let_def)

text \<open>
  Claim C6, amended. For every existing task, UpdateTask sets the task's status to
  exactly the provided value for every provided status string that is not empty,
  whatever the status was before and whatever the value is (there is no transition
  rule); a status provided as the empty string is not written and the status stays as
  it was. Each other field is updated whenever it is explicitly provided: the
  description to the given text, the assignee e-mail to the given address, the due date
  to the given text, or to none when the given text is empty; a field that is not
  provided stays as it was, and so do the title, the project and the key. The call
  succeeds, returns the task so updated and saves it, for every request user when no
  assignee e-mail is provided, and with an assignee e-mail when the task's organization
  has no owner or the request user is its owner (the remaining case is the refusal of
  claim C3).
\<close>

theorem update_task_sets_fields:
  assumes "get_task d tid = Inr t"
      and "assignee = None
           \<or> (get_project d (task_project t) = Inr p
              \<and> get_organization d (project_organization p) = Inr org
              \<and> (owner org = None \<or> usr = User w \<and> owner org = Some w))"
  shows "\<exists>t'. update_task_mutate d usr tid st ds assignee dd = (Inr t', save_task t' d)
           \<and> get_task (save_task t' d) tid = Inr t'
           \<and> (\<forall>s. st = Some s \<and> s \<noteq> [] \<longrightarrow> status t' = s)
           \<and> (st = Some [] \<or> st = None \<longrightarrow> status t' = status t)
           \<and> (\<forall>x. ds = Some x \<longrightarrow> description t' = x)
           \<and> (ds = None \<longrightarrow> description t' = description t)
           \<and> (\<forall>a. assignee = Some a \<longrightarrow> assignee_email t' = Some a)
           \<and> (assignee = None \<longrightarrow> assignee_email t' = assignee_email t)
           \<and> (\<forall>x. dd = Some x \<and> x \<noteq> [] \<longrightarrow> due_date t' = Some x)
           \<and> (dd = Some [] \<longrightarrow> due_date t' = None)
           \<and> (dd = None \<longrightarrow> due_date t' = due_date t)
           \<and> task_id t' = task_id t \<and> task_project t' = task_project t
           \<and> title t' = title t"
proof -
  define t1 where
    "t1 = (case assignee of None \<Rightarrow> t | Some a \<Rightarrow> t\<lparr>assignee_email := Some a\<rparr>)"
  define t' where "t' = patch_due_date dd (patch_description ds (patch_status st t1))"
  have step: "assign d usr t assignee = Inr t1"
  proof (cases assignee)
    case None
    then show ?thesis by (simp add: assign_def t1_def)
  next
    case (Some a)
    with assms(2) have "get_project d (task_project t) = Inr p"
      "get_organization d (project_organization p) = Inr org"
      "owner org = None \<or> usr = User w \<and> owner org = Some w"
      by simp_all
    then have "assign d usr t (Some a) = Inr (t\<lparr>assignee_email := Some a\<rparr>)"
      by (rule assign_permitted)
    then show ?thesis using Some by (simp add: t1_def)
  qed
  have run: "update_task_mutate d usr tid st ds assignee dd = (Inr t', save_task t' d)"
    using assms(1) step by (simp add: update_task_mutate_def t'_def Let_def)
  have t1_fields: "task_id t1 = task_id t" "status t1 = status t"
    "description t1 = description t" "due_date t1 = due_date t"
    "task_project t1 = task_project t" "title t1 = title t"
    "assignee_email t1 = (case assignee of None \<Rightarrow> assignee_email t | Some a \<Rightarrow> Some a)"
    by (simp_all add: t1_def split: option.splits)
  have key: "task_id t' = task_id t" by (simp add: t'_def patched_key t1_fields)
  then have "task_id t' = tid" using get_task_key [OF assms(1)] by simp
  with assms(1) have saved: "get_task (save_task t' d) tid = Inr t'" by (rule get_task_saved)
  have new_status: "status t' = (case st of None \<Rightarrow> status t | Some s \<Rightarrow> if s = [] then status t else s)"
    by (simp add: t'_def patched_status t1_fields split: option.splits)
  have new_description: "description t' = (case ds of None \<Rightarrow> description t | Some x \<Rightarrow> x)"
    by (simp add: t'_def patched_description t1_fields split: option.splits)
  have new_due_date: "due_date t' = (case dd of None \<Rightarrow> due_date t | Some x \<Rightarrow> if x = [] then None else Some x)"
    by (simp add: t'_def patched_due_date t1_fields split: option.splits)
  have rest: "assignee_email t' = (case assignee of None \<Rightarrow> assignee_email t | Some a \<Rightarrow> Some a)"
    "task_project t' = task_project t" "title t' = title t"
    by (simp_all add: t'_def patched_other_fields t1_fields split: option.splits)
  have "(\<forall>s. st = Some s \<and> s \<noteq> [] \<longrightarrow> status t' = s)"
       "(st = Some [] \<or> st = None \<longrightarrow> status t' = status t)"
       "(\<forall>x. ds = Some x \<longrightarrow> description t' = x)"
       "(ds = None \<longrightarrow> description t' = description t)"
       "(\<forall>a. assignee = Some a \<longrightarrow> assignee_email t' = Some a)"
       "(assignee = None \<longrightarrow> assignee_email t' = assignee_email t)"
       "(\<forall>x. dd = Some x \<and> x \<noteq> [] \<longrightarrow> due_date t' = Some x)"
       "(dd = Some [] \<longrightarrow> due_date t' = None)"
       "(dd = None \<longrightarrow> due_date t' = due_date t)"
    by (auto simp: new_status new_description new_due_date rest)
  with run saved key rest(2,3) show ?thesis by (intro exI [of _ t']) simp
qed

text \<open>
  Alice, the owner of Acme, sends all four fields for task 3 of the sample: status
  \<open>REVIEW\<close>, a new description, a new assignee and an empty due date. Bob, who is
  not the owner, sends the status alone.
\<close>

theorem update_task_sets_fields_witness:
  "get_task sample_db 3 = Inr (sample_task 3 ''TODO'')
   \<and> get_project sample_db 1 = Inr (projects sample_db ! 0)
   \<and> get_organization sample_db 1 = Inr (organizations sample_db ! 0)
   \<and> owner (organizations sample_db ! 0) = Some 1
   \<and> (\<exists>t'. fst (update_task_mutate sample_db (User 1) 3 (Some ''REVIEW'') (Some ''redo'')
                 (Some ''carol@x.com'') (Some '''')) = Inr t'
          \<and> status t' = ''REVIEW'' \<and> description t' = ''redo''
          \<and> assignee_email t' = Some ''carol@x.com'' \<and> due_date t' = None)
   \<and> (\<exists>t'. fst (update_task_mutate sample_db (User 2) 3 (Some ''REVIEW'') None None None)
               = Inr t'
          \<and> status t' = ''REVIEW'' \<and> description t' = ''to do''
          \<and> assignee_email t' = Some ''bob@x.com'' \<and> due_date t' = Some ''2026-01-31'')"
proof -
  have h1: "get_task sample_db 3 = Inr (sample_task 3 ''TODO'')"
    by (simp add: sample_db_def sample_task_def get_task_def objects_get_def)
  have k1: "task_project (sample_task 3 ''TODO'') = 1" by (simp add: sample_task_def)
  have k2: "project_organization (projects sample_db ! 0) = 1" by (simp add: sample_db_def)
  have h2: "get_project sample_db 1 = Inr (projects sample_db ! 0)"
    by (simp add: sample_db_def get_project_def objects_get_def)
  have h3: "get_organization sample_db 1 = Inr (organizations sample_db ! 0)"
    by (simp add: sample_db_def get_organization_def objects_get_def)
  have h4: "owner (organizations sample_db ! 0) = Some 1" by (simp add: sample_db_def)
  have owner_case: "Some ''carol@x.com'' = None
           \<or> (get_project sample_db (task_project (sample_task 3 ''TODO''))
                 = Inr (projects sample_db ! 0)
              \<and> get_organization sample_db (project_organization (projects sample_db ! 0))
                 = Inr (organizations sample_db ! 0)
              \<and> (owner (organizations sample_db ! 0) = None
                 \<or> User 1 = User 1 \<and> owner (organizations sample_db ! 0) = Some 1))"
    using h2 h3 h4 by (simp add: k1 k2)
  have plain_case: "(None :: string option) = None
           \<or> (get_project sample_db (task_project (sample_task 3 ''TODO''))
                 = Inr (projects sample_db ! 0)
              \<and> get_organization sample_db (project_organization (projects sample_db ! 0))
                 = Inr (organizations sample_db ! 0)
              \<and> (owner (organizations sample_db ! 0) = None
                 \<or> User 2 = User 1 \<and> owner (organizations sample_db ! 0) = Some 1))"
    by simp
  have fields: "description (sample_task 3 ''TODO'') = ''to do''"
    "assignee_email (sample_task 3 ''TODO'') = Some ''bob@x.com''"
    "due_date (sample_task 3 ''TODO'') = Some ''2026-01-31''"
    by (simp_all add: sample_task_def)
  have a: "\<exists>t'. fst (update_task_mutate sample_db (User 1) 3 (Some ''REVIEW'') (Some ''redo'')
                 (Some ''carol@x.com'') (Some '''')) = Inr t'
          \<and> status t' = ''REVIEW'' \<and> description t' = ''redo''
          \<and> assignee_email t' = Some ''carol@x.com'' \<and> due_date t' = None"
    using update_task_sets_fields [OF h1 owner_case, of "Some ''REVIEW''" "Some ''redo''"
            "Some ''''"]
    by auto
  have b: "\<exists>t'. fst (update_task_mutate sample_db (User 2) 3 (Some ''REVIEW'') None None None)
               = Inr t'
          \<and> status t' = ''REVIEW'' \<and> description t' = ''to do''
          \<and> assignee_email t' = Some ''bob@x.com'' \<and> due_date t' = Some ''2026-01-31''"
    using update_task_sets_fields [OF h1 plain_case, of "Some ''REVIEW''" None None]
    by (auto simp: fields)
  from h1 h2 h3 h4 a b show ?thesis by (intro conjI)
qed

end
